theory Spec2Isabelle
  imports Main
begin

section \<open>Build configuration\<close>

text \<open>
  \<^verbatim>\<open>src/device_utils.cc\<close> selects one branch per function with the preprocessor chain
  \<^verbatim>\<open>#ifdef BLAS_HAVE_CUBLAS ... #elif defined(BLAS_HAVE_ROCBLAS) ... #elif
  defined(BLAS_HAVE_ONEMKL) ... #else\<close>. A build is the truth value of the three macros;
  every function below repeats the chain in the order of the source, so that an earlier
  macro wins when several are defined.
\<close>

record build =
  BLAS_HAVE_CUBLAS :: bool
  BLAS_HAVE_ROCBLAS :: bool
  BLAS_HAVE_ONEMKL :: bool

definition cuda_class :: "build \<Rightarrow> bool" where
  "cuda_class b \<longleftrightarrow> BLAS_HAVE_CUBLAS b"

definition rocm_class :: "build \<Rightarrow> bool" where
  "rocm_class b \<longleftrightarrow> \<not> BLAS_HAVE_CUBLAS b \<and> BLAS_HAVE_ROCBLAS b"

definition sycl_class :: "build \<Rightarrow> bool" where
  "sycl_class b \<longleftrightarrow> \<not> BLAS_HAVE_CUBLAS b \<and> \<not> BLAS_HAVE_ROCBLAS b \<and> BLAS_HAVE_ONEMKL b"

definition no_backend :: "build \<Rightarrow> bool" where
  "no_backend b \<longleftrightarrow> \<not> BLAS_HAVE_CUBLAS b \<and> \<not> BLAS_HAVE_ROCBLAS b \<and> \<not> BLAS_HAVE_ONEMKL b"

section \<open>Data\<close>

text \<open>
  Modelled from the spec: \<^verbatim>\<open>device_blas_int\<close> is declared in \<^verbatim>\<open>blas/device.hh\<close>, which
  is not among the sources. The spec calls a device identifier "an integer handle" that
  this layer only forwards, so the casts \<^verbatim>\<open>(device_blas_int)device\<close> and
  \<^verbatim>\<open>(*device) = dev\<close> keep the value. Device identifiers and counts are \<open>int\<close>; the
  only arithmetic on them is the count of enumerated devices, which stays far below the
  range of the machine type.
\<close>

type_synonym device_blas_int = int

text \<open>A \<^verbatim>\<open>void*\<close> is an address; a native stream handle is an opaque number.\<close>

type_synonym ptr = nat
type_synonym stream_t = nat

text \<open>
  \<^verbatim>\<open>blas::Queue\<close> is external; this file reads \<^verbatim>\<open>queue.device()\<close> and
  \<^verbatim>\<open>queue.stream()\<close> only.
\<close>

record Queue =
  device :: int
  stream :: stream_t

text \<open>\<^verbatim>\<open>blas::Error( msg, __func__ )\<close>: one exception type, a message and the function.\<close>

datatype Error = Error (what: string) (func: string)

text \<open>
  The error kinds of the spec (section 7) are told apart by the message of the
  \<^verbatim>\<open>throw\<close> statement: \<^verbatim>\<open>"unsupported function for sycl backend"\<close> is
  UnsupportedBackend, \<^verbatim>\<open>"device BLAS not available"\<close> is NoBackendConfigured and
  \<^verbatim>\<open>"unknown accelerator/gpu"\<close> is UnknownBackend.
\<close>

definition UnsupportedBackend :: "Error \<Rightarrow> bool" where
  "UnsupportedBackend e \<longleftrightarrow> what e = ''unsupported function for sycl backend''"

definition NoBackendConfigured :: "Error \<Rightarrow> bool" where
  "NoBackendConfigured e \<longleftrightarrow> what e = ''device BLAS not available''"

definition UnknownBackend :: "Error \<Rightarrow> bool" where
  "UnknownBackend e \<longleftrightarrow> what e = ''unknown accelerator/gpu''"

text \<open>
  The status a CUDA or HIP runtime call returns: \<^verbatim>\<open>cudaSuccess\<close>/\<^verbatim>\<open>hipSuccess\<close>,
  \<^verbatim>\<open>cudaErrorNoDevice\<close>/\<^verbatim>\<open>hipErrorNoDevice\<close>, or any other error code.
\<close>

datatype dev_status = Success | ErrorNoDevice | ErrorOther nat

text \<open>A SYCL device answers \<^verbatim>\<open>is_gpu()\<close>; a platform answers \<^verbatim>\<open>get_devices()\<close>.\<close>

datatype sycl_device = Device (device_name: nat) (is_gpu: bool)

datatype platform = Platform (get_devices: "sycl_device list")

section \<open>The vendor runtime\<close>

text \<open>
  The state of the vendor runtime that this layer can touch: the process-global
  current-device register of CUDA and ROCm, and the log of the runtime calls issued so
  far, oldest first.
\<close>

datatype vendor_call =
    SetDevice int
  | GetDevice
  | GetDeviceCount
  | Free ptr
  | FreeHost ptr
  | SyclFree ptr stream_t

record runtime =
  current_device :: int
  calls :: "vendor_call list"

text \<open>
  What the runtime answers is not decided by this layer: a \<open>vendor\<close> gives the status of
  every runtime call from its arguments and the runtime state (so also from the history
  of calls), the number of devices it reports, the exception text of a failing
  \<^verbatim>\<open>sycl::free\<close>, the SYCL platforms and the diagnostic text of a status.
\<close>

record vendor =
  SetDevice_status :: "int \<Rightarrow> runtime \<Rightarrow> dev_status"
  GetDevice_status :: "runtime \<Rightarrow> dev_status"
  GetDeviceCount_status :: "runtime \<Rightarrow> dev_status"
  device_count :: "runtime \<Rightarrow> nat"
  Free_status :: "ptr \<Rightarrow> runtime \<Rightarrow> dev_status"
  FreeHost_status :: "ptr \<Rightarrow> runtime \<Rightarrow> dev_status"
  sycl_free_exception :: "ptr \<Rightarrow> stream_t \<Rightarrow> runtime \<Rightarrow> string option"
  get_platforms :: "platform list"
  device_error_string :: "dev_status \<Rightarrow> string"

definition log_call :: "vendor_call \<Rightarrow> runtime \<Rightarrow> runtime" where
  "log_call c s = s\<lparr>calls := calls s @ [c]\<rparr>"

text \<open>
  Modelled from the spec: the vendor calls are not code of this repository. The spec
  gives their contract: set-device sets the "process-global current device to \<open>id\<close>",
  get-device does "query process-global current device", the count call does "query
  runtime device count", the free calls release a handle. A call that does not return
  success writes nothing: neither the register nor its out-parameter.
  \<^verbatim>\<open>cudaSetDevice\<close> and \<^verbatim>\<open>hipSetDevice\<close> are the same call of the active runtime,
  and so on for the other pairs.
\<close>

definition cudaSetDevice :: "vendor \<Rightarrow> int \<Rightarrow> runtime \<Rightarrow> dev_status \<times> runtime" where
  "cudaSetDevice V d s =
     (let err = SetDevice_status V d s; s' = log_call (SetDevice d) s
      in (err, if err = Success then s'\<lparr>current_device := d\<rparr> else s'))"

definition hipSetDevice :: "vendor \<Rightarrow> int \<Rightarrow> runtime \<Rightarrow> dev_status \<times> runtime" where
  "hipSetDevice = cudaSetDevice"

text \<open>The second argument is the content of the out-parameter before the call.\<close>

definition cudaGetDevice ::
  "vendor \<Rightarrow> device_blas_int \<Rightarrow> runtime \<Rightarrow> dev_status \<times> device_blas_int \<times> runtime" where
  "cudaGetDevice V dev s =
     (let err = GetDevice_status V s
      in (err, if err = Success then current_device s else dev, log_call GetDevice s))"

definition hipGetDevice ::
  "vendor \<Rightarrow> device_blas_int \<Rightarrow> runtime \<Rightarrow> dev_status \<times> device_blas_int \<times> runtime" where
  "hipGetDevice = cudaGetDevice"

definition cudaGetDeviceCount ::
  "vendor \<Rightarrow> device_blas_int \<Rightarrow> runtime \<Rightarrow> dev_status \<times> device_blas_int \<times> runtime" where
  "cudaGetDeviceCount V dev_count s =
     (let err = GetDeviceCount_status V s
      in (err, if err = Success then int (device_count V s) else dev_count,
          log_call GetDeviceCount s))"

definition hipGetDeviceCount ::
  "vendor \<Rightarrow> device_blas_int \<Rightarrow> runtime \<Rightarrow> dev_status \<times> device_blas_int \<times> runtime" where
  "hipGetDeviceCount = cudaGetDeviceCount"

definition cudaFree :: "vendor \<Rightarrow> ptr \<Rightarrow> runtime \<Rightarrow> dev_status \<times> runtime" where
  "cudaFree V p s = (Free_status V p s, log_call (Free p) s)"

definition hipFree :: "vendor \<Rightarrow> ptr \<Rightarrow> runtime \<Rightarrow> dev_status \<times> runtime" where
  "hipFree = cudaFree"

definition cudaFreeHost :: "vendor \<Rightarrow> ptr \<Rightarrow> runtime \<Rightarrow> dev_status \<times> runtime" where
  "cudaFreeHost V p s = (FreeHost_status V p s, log_call (FreeHost p) s)"

definition hipHostFree :: "vendor \<Rightarrow> ptr \<Rightarrow> runtime \<Rightarrow> dev_status \<times> runtime" where
  "hipHostFree = cudaFreeHost"

text \<open>\<^verbatim>\<open>sycl::free( ptr, stream )\<close> returns nothing and reports failure by an exception.\<close>

definition sycl_free :: "vendor \<Rightarrow> ptr \<Rightarrow> stream_t \<Rightarrow> runtime \<Rightarrow> string option \<times> runtime" where
  "sycl_free V p q s = (sycl_free_exception V p q s, log_call (SyclFree p q) s)"

section \<open>Error translation\<close>

text \<open>
  Modelled from the spec: the macro \<^verbatim>\<open>blas_dev_call\<close> comes from
  \<^verbatim>\<open>device_internal.hh\<close>, which is not among the sources. The spec: "any backend runtime
  error is wrapped and re-raised immediately as a fatal-to-the-caller error carrying the
  originating operation name", with "the runtime's own diagnostic text". On CUDA and
  ROCm its argument is a status; on SYCL it is a call that may throw.
\<close>

definition blas_dev_call :: "vendor \<Rightarrow> string \<Rightarrow> dev_status \<Rightarrow> Error + unit" where
  "blas_dev_call V fn err =
     (if err \<noteq> Success then Inl (Error (device_error_string V err) fn) else Inr ())"

definition blas_dev_call_sycl :: "string \<Rightarrow> string option \<Rightarrow> Error + unit" where
  "blas_dev_call_sycl fn exn = (case exn of Some msg \<Rightarrow> Inl (Error msg fn) | None \<Rightarrow> Inr ())"

section \<open>The functions of device_utils.cc\<close>

text \<open>
  A function returns its outcome (\<open>Inl\<close> the exception thrown, \<open>Inr\<close> the value
  returned) and the runtime state it leaves: what the runtime did before an exception
  stays done.
\<close>

definition set_device :: "vendor \<Rightarrow> build \<Rightarrow> int \<Rightarrow> runtime \<Rightarrow> (Error + unit) \<times> runtime" where
  "set_device V b dev s =
     (if BLAS_HAVE_CUBLAS b then
        (let (err, s') = cudaSetDevice V dev s in (blas_dev_call V ''set_device'' err, s'))
      else if BLAS_HAVE_ROCBLAS b then
        (let (err, s') = hipSetDevice V dev s in (blas_dev_call V ''set_device'' err, s'))
      else if BLAS_HAVE_ONEMKL b then
        (Inl (Error ''unsupported function for sycl backend'' ''set_device''), s)
      else
        (Inl (Error ''device BLAS not available'' ''set_device''), s))"

definition internal_set_device ::
  "vendor \<Rightarrow> build \<Rightarrow> int \<Rightarrow> runtime \<Rightarrow> (Error + unit) \<times> runtime" where
  "internal_set_device V b dev s =
     (if BLAS_HAVE_CUBLAS b then
        (let (err, s') = cudaSetDevice V dev s
         in (blas_dev_call V ''internal_set_device'' err, s'))
      else if BLAS_HAVE_ROCBLAS b then
        (let (err, s') = hipSetDevice V dev s
         in (blas_dev_call V ''internal_set_device'' err, s'))
      else if BLAS_HAVE_ONEMKL b then
        (Inr (), s)
      else
        (Inl (Error ''unknown accelerator/gpu'' ''internal_set_device''), s))"

text \<open>
  \<^verbatim>\<open>get_device( int *device )\<close>: the third argument is the content of the caller's
  variable before the call, the second component of the result its content afterwards.
\<close>

definition get_device ::
  "vendor \<Rightarrow> build \<Rightarrow> int \<Rightarrow> runtime \<Rightarrow> (Error + unit) \<times> int \<times> runtime" where
  "get_device V b caller_var s =
     (if BLAS_HAVE_CUBLAS b then
        (let (err, dev, s') = cudaGetDevice V (- 1) s
         in case blas_dev_call V ''get_device'' err of
              Inl e \<Rightarrow> (Inl e, caller_var, s')
            | Inr _ \<Rightarrow> (Inr (), dev, s'))
      else if BLAS_HAVE_ROCBLAS b then
        (let (err, dev, s') = hipGetDevice V (- 1) s
         in case blas_dev_call V ''get_device'' err of
              Inl e \<Rightarrow> (Inl e, caller_var, s')
            | Inr _ \<Rightarrow> (Inr (), dev, s'))
      else if BLAS_HAVE_ONEMKL b then
        (Inl (Error ''unsupported function for sycl backend'' ''get_device''), caller_var, s)
      else
        (Inl (Error ''device BLAS not available'' ''get_device''), caller_var, s))"

text \<open>The two nested loops of the SYCL branch: \<^verbatim>\<open>dev_count += device.is_gpu()\<close>.\<close>

primrec count_devices :: "sycl_device list \<Rightarrow> device_blas_int \<Rightarrow> device_blas_int" where
  "count_devices [] dev_count = dev_count"
| "count_devices (d # ds) dev_count =
     count_devices ds (dev_count + (if is_gpu d then 1 else 0))"

primrec count_platforms :: "platform list \<Rightarrow> device_blas_int \<Rightarrow> device_blas_int" where
  "count_platforms [] dev_count = dev_count"
| "count_platforms (p # ps) dev_count =
     count_platforms ps (count_devices (get_devices p) dev_count)"

definition get_device_count ::
  "vendor \<Rightarrow> build \<Rightarrow> runtime \<Rightarrow> (Error + device_blas_int) \<times> runtime" where
  "get_device_count V b s =
     (let dev_count = 0 in
      if BLAS_HAVE_CUBLAS b then
        (let (err, dev_count, s') = cudaGetDeviceCount V dev_count s
         in if err \<noteq> Success \<and> err \<noteq> ErrorNoDevice then
              (case blas_dev_call V ''get_device_count'' err of
                 Inl e \<Rightarrow> (Inl e, s')
               | Inr _ \<Rightarrow> (Inr dev_count, s'))
            else (Inr dev_count, s'))
      else if BLAS_HAVE_ROCBLAS b then
        (let (err, dev_count, s') = hipGetDeviceCount V dev_count s
         in if err \<noteq> Success \<and> err \<noteq> ErrorNoDevice then
              (case blas_dev_call V ''get_device_count'' err of
                 Inl e \<Rightarrow> (Inl e, s')
               | Inr _ \<Rightarrow> (Inr dev_count, s'))
            else (Inr dev_count, s'))
      else if BLAS_HAVE_ONEMKL b then
        (Inr (count_platforms (get_platforms V) dev_count), s)
      else
        (Inr dev_count, s))"

text \<open>
  \<^verbatim>\<open>enumerate_devices\<close>, compiled under \<^verbatim>\<open>#ifdef BLAS_HAVE_ONEMKL\<close>. The vector is the
  list of its elements: \<^verbatim>\<open>clear\<close> empties it, \<^verbatim>\<open>reserve\<close> changes the capacity only and
  no element, \<^verbatim>\<open>push_back\<close> appends.
\<close>

definition clear :: "'a list \<Rightarrow> 'a list" where
  "clear v = []"

definition reserve :: "'a list \<Rightarrow> device_blas_int \<Rightarrow> 'a list" where
  "reserve v n = v"

definition push_back :: "'a list \<Rightarrow> 'a \<Rightarrow> 'a list" where
  "push_back v x = v @ [x]"

primrec push_gpu_devices :: "sycl_device list \<Rightarrow> sycl_device list \<Rightarrow> sycl_device list" where
  "push_gpu_devices [] devices = devices"
| "push_gpu_devices (idevice # all_devices) devices =
     push_gpu_devices all_devices
       (if is_gpu idevice then push_back devices idevice else devices)"

primrec push_platforms :: "platform list \<Rightarrow> sycl_device list \<Rightarrow> sycl_device list" where
  "push_platforms [] devices = devices"
| "push_platforms (p # ps) devices =
     push_platforms ps (push_gpu_devices (get_devices p) devices)"

definition enumerate_devices ::
  "vendor \<Rightarrow> build \<Rightarrow> sycl_device list \<Rightarrow> runtime \<Rightarrow> (Error + sycl_device list) \<times> runtime" where
  "enumerate_devices V b devices s =
     (case get_device_count V b s of
        (Inl e, s') \<Rightarrow> (Inl e, s')
      | (Inr dev_count, s') \<Rightarrow>
          (let devices = (if int (length devices) \<noteq> dev_count
                          then reserve (clear devices) dev_count else devices)
           in (Inr (push_platforms (get_platforms V) devices), s')))"

text \<open>The overloads of \<^verbatim>\<open>device_free\<close> and \<^verbatim>\<open>host_free_pinned\<close> that take no queue.\<close>

definition device_free :: "vendor \<Rightarrow> build \<Rightarrow> ptr \<Rightarrow> runtime \<Rightarrow> (Error + unit) \<times> runtime" where
  "device_free V b p s =
     (if BLAS_HAVE_CUBLAS b then
        (let (err, s') = cudaFree V p s in (blas_dev_call V ''device_free'' err, s'))
      else if BLAS_HAVE_ROCBLAS b then
        (let (err, s') = hipFree V p s in (blas_dev_call V ''device_free'' err, s'))
      else if BLAS_HAVE_ONEMKL b then
        (Inl (Error ''unsupported function for sycl backend'' ''device_free''), s)
      else
        (Inl (Error ''device BLAS not available'' ''device_free''), s))"

definition host_free_pinned ::
  "vendor \<Rightarrow> build \<Rightarrow> ptr \<Rightarrow> runtime \<Rightarrow> (Error + unit) \<times> runtime" where
  "host_free_pinned V b p s =
     (if BLAS_HAVE_CUBLAS b then
        (let (err, s') = cudaFreeHost V p s in (blas_dev_call V ''host_free_pinned'' err, s'))
      else if BLAS_HAVE_ROCBLAS b then
        (let (err, s') = hipHostFree V p s in (blas_dev_call V ''host_free_pinned'' err, s'))
      else if BLAS_HAVE_ONEMKL b then
        (Inl (Error ''unsupported function for sycl backend'' ''host_free_pinned''), s)
      else
        (Inl (Error ''device BLAS not available'' ''host_free_pinned''), s))"

text \<open>
  The overloads that take a queue. \<^verbatim>\<open>device_free( ptr, queue )\<close> has no \<^verbatim>\<open>#else\<close>
  branch: with no macro defined its body is empty and it returns.
\<close>

definition device_free_queue ::
  "vendor \<Rightarrow> build \<Rightarrow> ptr \<Rightarrow> Queue \<Rightarrow> runtime \<Rightarrow> (Error + unit) \<times> runtime" where
  "device_free_queue V b p queue s =
     (if BLAS_HAVE_CUBLAS b then
        (case internal_set_device V b (device queue) s of
           (Inl e, s1) \<Rightarrow> (Inl e, s1)
         | (Inr _, s1) \<Rightarrow>
             (let (err, s2) = cudaFree V p s1 in (blas_dev_call V ''device_free'' err, s2)))
      else if BLAS_HAVE_ROCBLAS b then
        (case internal_set_device V b (device queue) s of
           (Inl e, s1) \<Rightarrow> (Inl e, s1)
         | (Inr _, s1) \<Rightarrow>
             (let (err, s2) = hipFree V p s1 in (blas_dev_call V ''device_free'' err, s2)))
      else if BLAS_HAVE_ONEMKL b then
        (let (exn, s') = sycl_free V p (stream queue) s
         in (blas_dev_call_sycl ''device_free'' exn, s'))
      else
        (Inr (), s))"

definition host_free_pinned_queue ::
  "vendor \<Rightarrow> build \<Rightarrow> ptr \<Rightarrow> Queue \<Rightarrow> runtime \<Rightarrow> (Error + unit) \<times> runtime" where
  "host_free_pinned_queue V b p queue s =
     (if BLAS_HAVE_CUBLAS b then
        (let (err, s') = cudaFreeHost V p s in (blas_dev_call V ''host_free_pinned'' err, s'))
      else if BLAS_HAVE_ROCBLAS b then
        (let (err, s') = hipHostFree V p s in (blas_dev_call V ''host_free_pinned'' err, s'))
      else if BLAS_HAVE_ONEMKL b then
        (let (exn, s') = sycl_free V p (stream queue) s
         in (blas_dev_call_sycl ''host_free_pinned'' exn, s'))
      else
        (Inl (Error ''device BLAS not available'' ''host_free_pinned''), s))"

section \<open>Vocabulary of the claims\<close>

text \<open>A call fails with an error of kind \<open>K\<close>: it throws, and the exception is of that kind.\<close>

definition fails_with :: "(Error \<Rightarrow> bool) \<Rightarrow> Error + 'a \<Rightarrow> bool" where
  "fails_with K r = (case r of Inl e \<Rightarrow> K e | Inr _ \<Rightarrow> False)"

text \<open>The GPU-capable devices of all platforms, in platform-then-device order.\<close>

definition gpu_devices :: "vendor \<Rightarrow> sycl_device list" where
  "gpu_devices V = filter is_gpu (concat (map get_devices (get_platforms V)))"

section \<open>Concrete builds and runtimes\<close>

definition cuda_build :: build where
  "cuda_build = \<lparr>BLAS_HAVE_CUBLAS = True, BLAS_HAVE_ROCBLAS = False, BLAS_HAVE_ONEMKL = False\<rparr>"

definition rocm_build :: build where
  "rocm_build = \<lparr>BLAS_HAVE_CUBLAS = False, BLAS_HAVE_ROCBLAS = True, BLAS_HAVE_ONEMKL = False\<rparr>"

definition sycl_build :: build where
  "sycl_build = \<lparr>BLAS_HAVE_CUBLAS = False, BLAS_HAVE_ROCBLAS = False, BLAS_HAVE_ONEMKL = True\<rparr>"

definition null_build :: build where
  "null_build = \<lparr>BLAS_HAVE_CUBLAS = False, BLAS_HAVE_ROCBLAS = False, BLAS_HAVE_ONEMKL = False\<rparr>"

text \<open>A fresh process: device 0 is current and no runtime call has been made.\<close>

definition fresh :: runtime where
  "fresh = \<lparr>current_device = 0, calls = []\<rparr>"

text \<open>
  A machine with two GPUs and a CPU device. Set-device accepts the identifiers 0 and 1
  and answers 101 (\<^verbatim>\<open>cudaErrorInvalidDevice\<close>) otherwise; a free call accepts every
  address but 0, for which it answers 1 (\<^verbatim>\<open>cudaErrorInvalidValue\<close>) and
  \<^verbatim>\<open>sycl::free\<close> throws. As SYCL devices the GPUs are named 0 and 2 and the CPU 1, on
  two platforms.
\<close>

definition two_gpus :: vendor where
  "two_gpus =
     \<lparr>SetDevice_status = (\<lambda>d s. if 0 \<le> d \<and> d < 2 then Success else ErrorOther 101),
      GetDevice_status = (\<lambda>s. Success),
      GetDeviceCount_status = (\<lambda>s. Success),
      device_count = (\<lambda>s. 2),
      Free_status = (\<lambda>p s. if p = 0 then ErrorOther 1 else Success),
      FreeHost_status = (\<lambda>p s. if p = 0 then ErrorOther 1 else Success),
      sycl_free_exception = (\<lambda>p q s. if p = 0 then Some ''invalid pointer'' else None),
      get_platforms = [Platform [Device 0 True, Device 1 False], Platform [Device 2 True]],
      device_error_string = (\<lambda>e. if e = ErrorOther 101 then ''invalid device ordinal''
                                   else if e = ErrorNoDevice then ''no CUDA-capable device is detected''
                                   else ''invalid argument'')\<rparr>"

text \<open>A machine with the runtime installed and no GPU.\<close>

definition no_gpu :: vendor where
  "no_gpu =
     \<lparr>SetDevice_status = (\<lambda>d s. ErrorNoDevice),
      GetDevice_status = (\<lambda>s. ErrorNoDevice),
      GetDeviceCount_status = (\<lambda>s. ErrorNoDevice),
      device_count = (\<lambda>s. 0),
      Free_status = (\<lambda>p s. ErrorNoDevice),
      FreeHost_status = (\<lambda>p s. ErrorNoDevice),
      sycl_free_exception = (\<lambda>p q s. Some ''no device''),
      get_platforms = [Platform [Device 0 False]],
      device_error_string = (\<lambda>e. ''no CUDA-capable device is detected'')\<rparr>"

text \<open>A runtime whose driver is broken: the count call answers 35 (insufficient driver).\<close>

definition broken_driver :: vendor where
  "broken_driver = no_gpu\<lparr>GetDeviceCount_status := (\<lambda>s. ErrorOther 35),
                          device_error_string := (\<lambda>e. ''driver version is insufficient'')\<rparr>"

definition queue1 :: Queue where
  "queue1 = \<lparr>device = 1, stream = 7\<rparr>"

section \<open>Facts about the loops\<close>

lemma count_devices_eq:
  "count_devices ds c = c + int (length (filter is_gpu ds))"
  by (induction ds arbitrary: c) auto

lemma count_platforms_eq:
  "count_platforms ps c = c + int (length (filter is_gpu (concat (map get_devices ps))))"
  by (induction ps arbitrary: c) (auto simp: count_devices_eq)

lemma push_gpu_devices_eq:
  "push_gpu_devices ds out = out @ filter is_gpu ds"
  by (induction ds arbitrary: out) (auto simp: push_back_def)

lemma push_platforms_eq:
  "push_platforms ps out = out @ filter is_gpu (concat (map get_devices ps))"
  by (induction ps arbitrary: out) (auto simp: push_gpu_devices_eq)

lemmas class_defs = cuda_class_def rocm_class_def sycl_class_def no_backend_def

lemmas build_defs = cuda_build_def rocm_build_def sycl_build_def null_build_def

lemma build_cases:
  "cuda_class b \<or> rocm_class b \<or> sycl_class b \<or> no_backend b"
  by (auto simp: class_defs)

section \<open>Counting and enumerating devices\<close>

lemma get_device_count_sycl:
  "sycl_class b \<Longrightarrow> get_device_count V b s = (Inr (int (length (gpu_devices V))), s)"
  by (simp add: sycl_class_def get_device_count_def count_platforms_eq gpu_devices_def)

lemma get_device_count_cuda_rocm:
  assumes "cuda_class b \<or> rocm_class b"
  shows "get_device_count V b s =
     (case GetDeviceCount_status V s of
        Success \<Rightarrow> Inr (int (device_count V s))
      | ErrorNoDevice \<Rightarrow> Inr 0
      | ErrorOther k \<Rightarrow> Inl (Error (device_error_string V (ErrorOther k)) ''get_device_count''),
      log_call GetDeviceCount s)"
  using assms
  by (auto simp: cuda_class_def rocm_class_def get_device_count_def cudaGetDeviceCount_def
      hipGetDeviceCount_def blas_dev_call_def Let_def split: dev_status.splits)

text \<open>
  What \<open>enumerate_devices\<close> leaves in the vector on a SYCL-class build: the GPU devices,
  after the old content when the old size happens to equal the device count.
\<close>

lemma enumerate_devices_sycl:
  "sycl_class b \<Longrightarrow>
   enumerate_devices V b out s =
     (Inr ((if length out \<noteq> length (gpu_devices V) then [] else out) @ gpu_devices V), s)"
  by (simp add: enumerate_devices_def get_device_count_sycl push_platforms_eq clear_def
      reserve_def gpu_devices_def)

lemma enumerate_devices_resized:
  assumes "sycl_class b" and "length out \<noteq> length (gpu_devices V)"
  shows "enumerate_devices V b out s = (Inr (gpu_devices V), s)"
    and "list_all is_gpu (gpu_devices V)"
  using assms by (simp_all add: enumerate_devices_sycl gpu_devices_def list_all_iff)

text \<open>
  C1. On a SYCL-class build, \<open>enumerate_devices\<close> should leave in \<open>out\<close> as many devices
  as \<open>get_device_count\<close> reports, all of them GPUs, whatever \<open>out\<close> held before. The code
  clears \<open>out\<close> only when its size differs from the count. On a machine with two GPUs and
  a vector that already holds two devices, the two GPUs are appended to the old content:
  the vector ends with four elements while the count is two, and old elements that are no
  GPU stay in it.
\<close>

theorem enumerate_devices_keeps_stale_content:
  "get_device_count two_gpus sycl_build fresh = (Inr 2, fresh)
   \<and> enumerate_devices two_gpus sycl_build [Device 0 True, Device 2 True] fresh
       = (Inr [Device 0 True, Device 2 True, Device 0 True, Device 2 True], fresh)
   \<and> enumerate_devices two_gpus sycl_build [Device 1 False, Device 1 False] fresh
       = (Inr [Device 1 False, Device 1 False, Device 0 True, Device 2 True], fresh)"
  by (simp add: enumerate_devices_def get_device_count_def sycl_build_def two_gpus_def
      push_back_def)

text \<open>
  C6. \<open>get_device_count\<close> never returns a negative number. With no backend it returns 0
  and touches nothing. On a SYCL-class build it returns the number of GPU devices of all
  platforms. On a CUDA-class or ROCm-class build it returns the runtime's count when the
  runtime call succeeds, 0 when the runtime answers "no device", and throws the
  runtime's error for every other status.
\<close>

theorem get_device_count_nonnegative:
  "(\<forall>n. fst (get_device_count V b s) = Inr n \<longrightarrow> 0 \<le> n)
   \<and> (no_backend b \<longrightarrow> get_device_count V b s = (Inr 0, s))
   \<and> (sycl_class b \<longrightarrow> get_device_count V b s = (Inr (int (length (gpu_devices V))), s))
   \<and> (cuda_class b \<or> rocm_class b \<longrightarrow>
        (GetDeviceCount_status V s = Success \<longrightarrow>
           fst (get_device_count V b s) = Inr (int (device_count V s)))
      \<and> (GetDeviceCount_status V s = ErrorNoDevice \<longrightarrow>
           fst (get_device_count V b s) = Inr 0)
      \<and> (\<forall>k. GetDeviceCount_status V s = ErrorOther k \<longrightarrow>
           fst (get_device_count V b s) =
             Inl (Error (device_error_string V (ErrorOther k)) ''get_device_count'')))"
proof -
  have none: "no_backend b \<Longrightarrow> get_device_count V b s = (Inr 0, s)"
    by (simp add: no_backend_def get_device_count_def)
  have nonneg: "0 \<le> n" if "fst (get_device_count V b s) = Inr n" for n
  proof -
    consider "cuda_class b \<or> rocm_class b" | "sycl_class b" | "no_backend b"
      using build_cases by blast
    then show ?thesis
    proof cases
      case 1
      with that show ?thesis
        by (auto simp: get_device_count_cuda_rocm split: dev_status.splits)
    next
      case 2
      with that show ?thesis by (simp add: get_device_count_sycl)
    next
      case 3
      with that show ?thesis by (simp add: none)
    qed
  qed
  show ?thesis
    using nonneg none by (simp add: get_device_count_sycl get_device_count_cuda_rocm)
qed

theorem get_device_count_nonnegative_witness:
  "fst (get_device_count two_gpus cuda_build fresh) = Inr 2 \<and> (0::int) \<le> 2
   \<and> no_backend null_build \<and> get_device_count two_gpus null_build fresh = (Inr 0, fresh)
   \<and> sycl_class sycl_build \<and> get_device_count two_gpus sycl_build fresh = (Inr 2, fresh)
   \<and> rocm_class rocm_build \<and> GetDeviceCount_status two_gpus fresh = Success
   \<and> fst (get_device_count two_gpus rocm_build fresh) = Inr 2
   \<and> cuda_class cuda_build \<and> GetDeviceCount_status no_gpu fresh = ErrorNoDevice
   \<and> fst (get_device_count no_gpu cuda_build fresh) = Inr 0
   \<and> GetDeviceCount_status broken_driver fresh = ErrorOther 35
   \<and> fst (get_device_count broken_driver cuda_build fresh) =
       Inl (Error ''driver version is insufficient'' ''get_device_count'')"
proof -
  have b: "no_backend null_build" "sycl_class sycl_build" "rocm_class rocm_build"
    "cuda_class cuda_build"
    by (simp_all add: class_defs build_defs)
  have v: "GetDeviceCount_status two_gpus fresh = Success"
    "GetDeviceCount_status no_gpu fresh = ErrorNoDevice"
    "GetDeviceCount_status broken_driver fresh = ErrorOther 35"
    "device_count two_gpus fresh = 2"
    "device_error_string broken_driver (ErrorOther 35) = ''driver version is insufficient''"
    "length (gpu_devices two_gpus) = 2"
    by (simp_all add: two_gpus_def no_gpu_def broken_driver_def gpu_devices_def)
  from get_device_count_nonnegative [of two_gpus null_build fresh]
    get_device_count_nonnegative [of two_gpus sycl_build fresh]
    get_device_count_nonnegative [of two_gpus rocm_build fresh]
    get_device_count_nonnegative [of two_gpus cuda_build fresh]
    get_device_count_nonnegative [of no_gpu cuda_build fresh]
    get_device_count_nonnegative [of broken_driver cuda_build fresh]
    b v
  show ?thesis by simp
qed

section \<open>The deprecated overloads without a queue\<close>

text \<open>
  C4. On a SYCL-class build each deprecated overload without a queue, \<open>set_device\<close>,
  \<open>get_device\<close>, \<open>device_free\<close> and \<open>host_free_pinned\<close>, throws an error of kind
  UnsupportedBackend for every argument, and changes neither the runtime state nor the
  caller's variable.
\<close>

theorem sycl_deprecated_overloads_unsupported:
  assumes "sycl_class b"
  shows "fails_with UnsupportedBackend (fst (set_device V b dev s))
       \<and> snd (set_device V b dev s) = s
       \<and> fails_with UnsupportedBackend (fst (get_device V b var s))
       \<and> snd (get_device V b var s) = (var, s)
       \<and> fails_with UnsupportedBackend (fst (device_free V b p s))
       \<and> snd (device_free V b p s) = s
       \<and> fails_with UnsupportedBackend (fst (host_free_pinned V b p s))
       \<and> snd (host_free_pinned V b p s) = s"
  using assms
  by (simp add: sycl_class_def set_device_def get_device_def device_free_def
      host_free_pinned_def fails_with_def UnsupportedBackend_def)

theorem sycl_deprecated_overloads_unsupported_witness:
  "sycl_class sycl_build
   \<and> fails_with UnsupportedBackend (fst (set_device two_gpus sycl_build 1 fresh))
   \<and> fails_with UnsupportedBackend (fst (get_device two_gpus sycl_build 9 fresh))
   \<and> snd (get_device two_gpus sycl_build 9 fresh) = (9, fresh)
   \<and> fails_with UnsupportedBackend (fst (device_free two_gpus sycl_build 5 fresh))
   \<and> fails_with UnsupportedBackend (fst (host_free_pinned two_gpus sycl_build 5 fresh))"
proof -
  have h: "sycl_class sycl_build"
    by (simp add: sycl_class_def sycl_build_def)
  from sycl_deprecated_overloads_unsupported [OF h, of two_gpus 1 fresh 9 5] h
  show ?thesis by simp
qed

text \<open>
  C5. On a build with no backend, \<open>get_device_count\<close> returns 0, and \<open>set_device\<close>,
  \<open>get_device\<close>, \<open>device_free\<close> and \<open>host_free_pinned\<close> without a queue throw an error
  of kind NoBackendConfigured for every argument, leaving everything as it was.
\<close>

theorem no_backend_stub:
  assumes "no_backend b"
  shows "get_device_count V b s = (Inr 0, s)
       \<and> fails_with NoBackendConfigured (fst (set_device V b dev s))
       \<and> snd (set_device V b dev s) = s
       \<and> fails_with NoBackendConfigured (fst (get_device V b var s))
       \<and> snd (get_device V b var s) = (var, s)
       \<and> fails_with NoBackendConfigured (fst (device_free V b p s))
       \<and> snd (device_free V b p s) = s
       \<and> fails_with NoBackendConfigured (fst (host_free_pinned V b p s))
       \<and> snd (host_free_pinned V b p s) = s"
  using assms
  by (simp add: no_backend_def get_device_count_def set_device_def get_device_def
      device_free_def host_free_pinned_def fails_with_def NoBackendConfigured_def)

theorem no_backend_stub_witness:
  "no_backend null_build
   \<and> get_device_count two_gpus null_build fresh = (Inr 0, fresh)
   \<and> fails_with NoBackendConfigured (fst (set_device two_gpus null_build 0 fresh))
   \<and> fails_with NoBackendConfigured (fst (get_device two_gpus null_build 9 fresh))
   \<and> fails_with NoBackendConfigured (fst (device_free two_gpus null_build 5 fresh))
   \<and> fails_with NoBackendConfigured (fst (host_free_pinned two_gpus null_build 5 fresh))"
proof -
  have h: "no_backend null_build"
    by (simp add: no_backend_def null_build_def)
  from no_backend_stub [OF h, of two_gpus fresh 0 9 5] h
  show ?thesis by simp
qed

section \<open>Setting and reading the current device\<close>

text \<open>
  On a CUDA-class or ROCm-class build the three functions forward to the runtime and
  translate its status.
\<close>

lemma log_call_simps:
  "calls (log_call c s) = calls s @ [c]" "current_device (log_call c s) = current_device s"
  by (simp_all add: log_call_def)

lemma set_device_cuda_rocm:
  assumes "cuda_class b \<or> rocm_class b"
  shows "set_device V b dev s =
     (if SetDevice_status V dev s = Success
      then (Inr (), (log_call (SetDevice dev) s)\<lparr>current_device := dev\<rparr>)
      else (Inl (Error (device_error_string V (SetDevice_status V dev s)) ''set_device''),
            log_call (SetDevice dev) s))"
  using assms
  by (auto simp: cuda_class_def rocm_class_def set_device_def cudaSetDevice_def
      hipSetDevice_def blas_dev_call_def Let_def)

lemma internal_set_device_cuda_rocm:
  assumes "cuda_class b \<or> rocm_class b"
  shows "internal_set_device V b dev s =
     (if SetDevice_status V dev s = Success
      then (Inr (), (log_call (SetDevice dev) s)\<lparr>current_device := dev\<rparr>)
      else (Inl (Error (device_error_string V (SetDevice_status V dev s))
                  ''internal_set_device''),
            log_call (SetDevice dev) s))"
  using assms
  by (auto simp: cuda_class_def rocm_class_def internal_set_device_def cudaSetDevice_def
      hipSetDevice_def blas_dev_call_def Let_def)

lemma get_device_cuda_rocm:
  assumes "cuda_class b \<or> rocm_class b"
  shows "get_device V b var s =
     (if GetDevice_status V s = Success
      then (Inr (), current_device s, log_call GetDevice s)
      else (Inl (Error (device_error_string V (GetDevice_status V s)) ''get_device''),
            var, log_call GetDevice s))"
  using assms
  by (auto simp: cuda_class_def rocm_class_def get_device_def cudaGetDevice_def
      hipGetDevice_def blas_dev_call_def Let_def)

text \<open>
  The claim that the internal device-set succeeds for every identifier on a CUDA-class
  build fails for an identifier the runtime rejects: on a machine with two GPUs,
  \<open>internal_set_device 7\<close> throws the runtime's error.
\<close>

theorem internal_set_device_rejected_id:
  "cuda_class cuda_build
   \<and> internal_set_device two_gpus cuda_build 7 fresh =
       (Inl (Error ''invalid device ordinal'' ''internal_set_device''),
        \<lparr>current_device = 0, calls = [SetDevice 7]\<rparr>)"
  by (simp add: internal_set_device_def cudaSetDevice_def blas_dev_call_def cuda_class_def
      cuda_build_def two_gpus_def fresh_def log_call_def)

text \<open>
  C7, as amended. \<open>internal_set_device\<close> on a CUDA-class or ROCm-class build forwards
  the identifier to the runtime's set-device call: it returns and the current device is
  that identifier when the runtime reports success, and it throws the runtime's error,
  the register unchanged, otherwise. On a SYCL-class build it returns for every identifier
  and does nothing. With no backend it throws an error of kind UnknownBackend.
\<close>

theorem internal_set_device_outcome:
  "(cuda_class b \<or> rocm_class b \<longrightarrow>
      (SetDevice_status V dev s = Success \<longrightarrow>
         internal_set_device V b dev s =
           (Inr (), (log_call (SetDevice dev) s)\<lparr>current_device := dev\<rparr>))
    \<and> (SetDevice_status V dev s \<noteq> Success \<longrightarrow>
         internal_set_device V b dev s =
           (Inl (Error (device_error_string V (SetDevice_status V dev s))
                  ''internal_set_device''),
            log_call (SetDevice dev) s)))
   \<and> (sycl_class b \<longrightarrow> internal_set_device V b dev s = (Inr (), s))
   \<and> (no_backend b \<longrightarrow>
        fails_with UnknownBackend (fst (internal_set_device V b dev s))
      \<and> snd (internal_set_device V b dev s) = s)"
proof -
  have "sycl_class b \<Longrightarrow> internal_set_device V b dev s = (Inr (), s)"
    by (simp add: sycl_class_def internal_set_device_def)
  moreover have "no_backend b \<Longrightarrow>
      fails_with UnknownBackend (fst (internal_set_device V b dev s))
      \<and> snd (internal_set_device V b dev s) = s"
    by (simp add: no_backend_def internal_set_device_def fails_with_def UnknownBackend_def)
  ultimately show ?thesis
    by (simp add: internal_set_device_cuda_rocm)
qed

theorem internal_set_device_outcome_witness:
  "cuda_class cuda_build \<and> SetDevice_status two_gpus 1 fresh = Success
   \<and> internal_set_device two_gpus cuda_build 1 fresh =
       (Inr (), \<lparr>current_device = 1, calls = [SetDevice 1]\<rparr>)
   \<and> rocm_class rocm_build \<and> SetDevice_status two_gpus 7 fresh \<noteq> Success
   \<and> internal_set_device two_gpus rocm_build 7 fresh =
       (Inl (Error ''invalid device ordinal'' ''internal_set_device''),
        \<lparr>current_device = 0, calls = [SetDevice 7]\<rparr>)
   \<and> sycl_class sycl_build \<and> internal_set_device two_gpus sycl_build 7 fresh = (Inr (), fresh)
   \<and> no_backend null_build
   \<and> fails_with UnknownBackend (fst (internal_set_device two_gpus null_build 1 fresh))
   \<and> snd (internal_set_device two_gpus null_build 1 fresh) = fresh"
proof -
  have b: "no_backend null_build" "sycl_class sycl_build" "rocm_class rocm_build"
    "cuda_class cuda_build"
    by (simp_all add: class_defs build_defs)
  have v: "SetDevice_status two_gpus 1 fresh = Success"
    "SetDevice_status two_gpus 7 fresh = ErrorOther 101"
    "device_error_string two_gpus (ErrorOther 101) = ''invalid device ordinal''"
    by (simp_all add: two_gpus_def)
  from internal_set_device_outcome [of cuda_build two_gpus 1 fresh]
    internal_set_device_outcome [of rocm_build two_gpus 7 fresh]
    internal_set_device_outcome [of sycl_build two_gpus 7 fresh]
    internal_set_device_outcome [of null_build two_gpus 1 fresh]
    b v
  show ?thesis by (simp add: class_defs build_defs prod_eq_iff fresh_def log_call_def)
qed

text \<open>
  C8. On a CUDA-class or ROCm-class build, for an identifier the runtime accepts,
  \<open>set_device\<close> returns, and a \<open>get_device\<close> that follows immediately (its runtime
  call succeeding) returns and stores that identifier in the caller's variable.
\<close>

theorem set_device_get_device_round_trip:
  assumes "cuda_class b \<or> rocm_class b"
    and "SetDevice_status V dev s = Success"
    and "GetDevice_status V (snd (set_device V b dev s)) = Success"
  shows "fst (set_device V b dev s) = Inr ()
       \<and> fst (get_device V b var (snd (set_device V b dev s))) = Inr ()
       \<and> fst (snd (get_device V b var (snd (set_device V b dev s)))) = dev"
  using assms by (simp add: set_device_cuda_rocm get_device_cuda_rocm log_call_simps)

theorem set_device_get_device_round_trip_witness:
  "cuda_class cuda_build \<and> SetDevice_status two_gpus 1 fresh = Success
   \<and> GetDevice_status two_gpus (snd (set_device two_gpus cuda_build 1 fresh)) = Success
   \<and> current_device fresh = 0
   \<and> fst (set_device two_gpus cuda_build 1 fresh) = Inr ()
   \<and> fst (get_device two_gpus cuda_build 9 (snd (set_device two_gpus cuda_build 1 fresh))) = Inr ()
   \<and> fst (snd (get_device two_gpus cuda_build 9 (snd (set_device two_gpus cuda_build 1 fresh)))) = 1"
proof -
  have c: "cuda_class cuda_build"
    by (simp add: cuda_class_def cuda_build_def)
  have v: "SetDevice_status two_gpus 1 fresh = Success" "GetDevice_status two_gpus s = Success" for s
    by (simp_all add: two_gpus_def)
  from set_device_get_device_round_trip [of cuda_build two_gpus 1 fresh 9] c v
  show ?thesis by (simp add: fresh_def)
qed

text \<open>
  C9. Whenever \<open>get_device\<close> throws, the caller's variable keeps its content. On
  SYCL-class and no-backend builds it always throws. On a CUDA-class or ROCm-class build
  it stores the current device and returns when the runtime call succeeds, and throws
  the runtime's error, storing nothing, when it does not.
\<close>

theorem get_device_stores_after_success:
  "(\<forall>e. fst (get_device V b var s) = Inl e \<longrightarrow> fst (snd (get_device V b var s)) = var)
   \<and> (sycl_class b \<or> no_backend b \<longrightarrow> (\<exists>e. fst (get_device V b var s) = Inl e))
   \<and> (cuda_class b \<or> rocm_class b \<longrightarrow>
        (GetDevice_status V s = Success \<longrightarrow>
           get_device V b var s = (Inr (), current_device s, log_call GetDevice s))
      \<and> (GetDevice_status V s \<noteq> Success \<longrightarrow>
           get_device V b var s =
             (Inl (Error (device_error_string V (GetDevice_status V s)) ''get_device''),
              var, log_call GetDevice s)))"
proof -
  have other: "\<exists>e. get_device V b var s = (Inl e, var, s)" if "sycl_class b \<or> no_backend b"
    using that by (auto simp: sycl_class_def no_backend_def get_device_def)
  have kept: "fst (snd (get_device V b var s)) = var" if "fst (get_device V b var s) = Inl e" for e
  proof (cases "cuda_class b \<or> rocm_class b")
    case True
    with that show ?thesis
      by (simp add: get_device_cuda_rocm split: if_splits)
  next
    case False
    then have "sycl_class b \<or> no_backend b"
      using build_cases [of b] by blast
    with other show ?thesis by auto
  qed
  from other have "sycl_class b \<or> no_backend b \<longrightarrow> (\<exists>e. fst (get_device V b var s) = Inl e)"
    by auto
  with kept show ?thesis
    by (simp add: get_device_cuda_rocm)
qed

theorem get_device_stores_after_success_witness:
  "fst (get_device no_gpu cuda_build 9 fresh) =
     Inl (Error ''no CUDA-capable device is detected'' ''get_device'')
   \<and> fst (snd (get_device no_gpu cuda_build 9 fresh)) = 9
   \<and> sycl_class sycl_build
   \<and> get_device two_gpus sycl_build 9 fresh =
       (Inl (Error ''unsupported function for sycl backend'' ''get_device''), 9, fresh)
   \<and> no_backend null_build
   \<and> get_device two_gpus null_build 9 fresh =
       (Inl (Error ''device BLAS not available'' ''get_device''), 9, fresh)
   \<and> rocm_class rocm_build \<and> GetDevice_status two_gpus (fresh\<lparr>current_device := 1\<rparr>) = Success
   \<and> get_device two_gpus rocm_build 9 (fresh\<lparr>current_device := 1\<rparr>) =
       (Inr (), 1, \<lparr>current_device = 1, calls = [GetDevice]\<rparr>)
   \<and> cuda_class cuda_build \<and> GetDevice_status no_gpu fresh \<noteq> Success
   \<and> get_device no_gpu cuda_build 9 fresh =
       (Inl (Error ''no CUDA-capable device is detected'' ''get_device''), 9,
        \<lparr>current_device = 0, calls = [GetDevice]\<rparr>)"
proof -
  have v: "GetDevice_status two_gpus s = Success" "GetDevice_status no_gpu s = ErrorNoDevice"
    "device_error_string no_gpu e = ''no CUDA-capable device is detected''" for s e
    by (simp_all add: two_gpus_def no_gpu_def)
  have d: "get_device two_gpus sycl_build 9 fresh =
       (Inl (Error ''unsupported function for sycl backend'' ''get_device''), 9, fresh)"
    "get_device two_gpus null_build 9 fresh =
       (Inl (Error ''device BLAS not available'' ''get_device''), 9, fresh)"
    by (simp_all add: get_device_def sycl_build_def null_build_def)
  from get_device_stores_after_success [of no_gpu cuda_build 9 fresh]
    get_device_stores_after_success [of two_gpus sycl_build 9 fresh]
    get_device_stores_after_success [of two_gpus null_build 9 fresh]
    get_device_stores_after_success [of two_gpus rocm_build 9 "fresh\<lparr>current_device := 1\<rparr>"]
    v d
  show ?thesis
    by (simp add: class_defs build_defs prod_eq_iff fresh_def log_call_def)
qed

section \<open>Freeing memory through a queue\<close>

lemma device_free_queue_cuda_rocm:
  assumes "cuda_class b \<or> rocm_class b"
  shows "device_free_queue V b p q s =
     (case internal_set_device V b (device q) s of
        (Inl e, s1) \<Rightarrow> (Inl e, s1)
      | (Inr _, s1) \<Rightarrow> (blas_dev_call V ''device_free'' (Free_status V p s1),
                         log_call (Free p) s1))"
  using assms
  by (auto simp: cuda_class_def rocm_class_def device_free_queue_def cudaFree_def hipFree_def
      split: prod.splits sum.splits)

lemma host_free_pinned_queue_cuda_rocm:
  assumes "cuda_class b \<or> rocm_class b"
  shows "host_free_pinned_queue V b p q s =
     (blas_dev_call V ''host_free_pinned'' (FreeHost_status V p s), log_call (FreeHost p) s)"
  using assms
  by (auto simp: cuda_class_def rocm_class_def host_free_pinned_queue_def cudaFreeHost_def
      hipHostFree_def)

lemma host_free_pinned_queue_sycl:
  assumes "sycl_class b"
  shows "host_free_pinned_queue V b p q s =
     (blas_dev_call_sycl ''host_free_pinned'' (sycl_free_exception V p (stream q) s),
      log_call (SyclFree p (stream q)) s)"
  using assms
  by (simp add: sycl_class_def host_free_pinned_queue_def sycl_free_def)

text \<open>
  The claim that \<open>host_free_pinned\<close> with a queue fails with UnsupportedBackend when no
  backend is configured, and succeeds for every pointer on a configured backend, fails on
  both counts: with no backend the error is "device BLAS not available", which is
  NoBackendConfigured; on a CUDA-class build a pointer the runtime rejects makes the call
  throw.
\<close>

theorem host_free_pinned_queue_failures:
  "no_backend null_build
   \<and> \<not> fails_with UnsupportedBackend
       (fst (host_free_pinned_queue two_gpus null_build 5 queue1 fresh))
   \<and> host_free_pinned_queue two_gpus null_build 5 queue1 fresh =
       (Inl (Error ''device BLAS not available'' ''host_free_pinned''), fresh)
   \<and> cuda_class cuda_build
   \<and> fst (host_free_pinned_queue two_gpus cuda_build 0 queue1 fresh) =
       Inl (Error ''invalid argument'' ''host_free_pinned'')"
  by (simp add: host_free_pinned_queue_def cudaFreeHost_def blas_dev_call_def fails_with_def
      UnsupportedBackend_def no_backend_def cuda_class_def null_build_def cuda_build_def
      two_gpus_def)

text \<open>
  C2, as amended. \<open>host_free_pinned\<close> with a queue issues exactly one runtime call, the
  host-free call on a CUDA-class or ROCm-class build and \<open>sycl::free\<close> on the queue's
  stream on a SYCL-class build; it returns when that call succeeds and throws the
  runtime's error when it fails. With no backend it throws an error of kind
  NoBackendConfigured and does nothing.
\<close>

theorem host_free_pinned_queue_outcome:
  "(cuda_class b \<or> rocm_class b \<longrightarrow>
      snd (host_free_pinned_queue V b p q s) = log_call (FreeHost p) s
    \<and> (FreeHost_status V p s = Success \<longrightarrow> fst (host_free_pinned_queue V b p q s) = Inr ())
    \<and> (FreeHost_status V p s \<noteq> Success \<longrightarrow>
         fst (host_free_pinned_queue V b p q s) =
           Inl (Error (device_error_string V (FreeHost_status V p s)) ''host_free_pinned'')))
   \<and> (sycl_class b \<longrightarrow>
      snd (host_free_pinned_queue V b p q s) = log_call (SyclFree p (stream q)) s
    \<and> (sycl_free_exception V p (stream q) s = None \<longrightarrow>
         fst (host_free_pinned_queue V b p q s) = Inr ())
    \<and> (\<forall>msg. sycl_free_exception V p (stream q) s = Some msg \<longrightarrow>
         fst (host_free_pinned_queue V b p q s) = Inl (Error msg ''host_free_pinned'')))
   \<and> (no_backend b \<longrightarrow>
        fails_with NoBackendConfigured (fst (host_free_pinned_queue V b p q s))
      \<and> snd (host_free_pinned_queue V b p q s) = s)"
proof -
  have "no_backend b \<Longrightarrow>
      fails_with NoBackendConfigured (fst (host_free_pinned_queue V b p q s))
      \<and> snd (host_free_pinned_queue V b p q s) = s"
    by (simp add: no_backend_def host_free_pinned_queue_def fails_with_def
        NoBackendConfigured_def)
  then show ?thesis
    by (simp add: host_free_pinned_queue_cuda_rocm host_free_pinned_queue_sycl
        blas_dev_call_def blas_dev_call_sycl_def)
qed

theorem host_free_pinned_queue_outcome_witness:
  "cuda_class cuda_build \<and> FreeHost_status two_gpus 5 fresh = Success
   \<and> host_free_pinned_queue two_gpus cuda_build 5 queue1 fresh =
       (Inr (), \<lparr>current_device = 0, calls = [FreeHost 5]\<rparr>)
   \<and> rocm_class rocm_build \<and> FreeHost_status two_gpus 0 fresh \<noteq> Success
   \<and> fst (host_free_pinned_queue two_gpus rocm_build 0 queue1 fresh) =
       Inl (Error ''invalid argument'' ''host_free_pinned'')
   \<and> sycl_class sycl_build \<and> sycl_free_exception two_gpus 5 (stream queue1) fresh = None
   \<and> host_free_pinned_queue two_gpus sycl_build 5 queue1 fresh =
       (Inr (), \<lparr>current_device = 0, calls = [SyclFree 5 7]\<rparr>)
   \<and> sycl_free_exception two_gpus 0 (stream queue1) fresh = Some ''invalid pointer''
   \<and> fst (host_free_pinned_queue two_gpus sycl_build 0 queue1 fresh) =
       Inl (Error ''invalid pointer'' ''host_free_pinned'')
   \<and> no_backend null_build
   \<and> fails_with NoBackendConfigured
       (fst (host_free_pinned_queue two_gpus null_build 5 queue1 fresh))
   \<and> snd (host_free_pinned_queue two_gpus null_build 5 queue1 fresh) = fresh"
proof -
  have b: "no_backend null_build" "sycl_class sycl_build" "rocm_class rocm_build"
    "cuda_class cuda_build"
    by (simp_all add: class_defs build_defs)
  have v: "FreeHost_status two_gpus 5 fresh = Success"
    "FreeHost_status two_gpus 0 fresh = ErrorOther 1"
    "device_error_string two_gpus (ErrorOther 1) = ''invalid argument''"
    "sycl_free_exception two_gpus 5 (stream queue1) fresh = None"
    "sycl_free_exception two_gpus 0 (stream queue1) fresh = Some ''invalid pointer''"
    "stream queue1 = 7"
    by (simp_all add: two_gpus_def queue1_def)
  from host_free_pinned_queue_outcome [of cuda_build two_gpus 5 queue1 fresh]
    host_free_pinned_queue_outcome [of rocm_build two_gpus 0 queue1 fresh]
    host_free_pinned_queue_outcome [of sycl_build two_gpus 5 queue1 fresh]
    host_free_pinned_queue_outcome [of sycl_build two_gpus 0 queue1 fresh]
    host_free_pinned_queue_outcome [of null_build two_gpus 5 queue1 fresh]
    b v
  show ?thesis by (simp add: class_defs build_defs prod_eq_iff fresh_def log_call_def)
qed

text \<open>
  That \<open>device_free\<close> with a queue sets the current device to the queue's device and
  then frees the pointer, for every pointer and queue, fails for a queue whose device the
  runtime rejects: on a ROCm-class build and a machine with two GPUs, a queue on device 7
  makes the call throw the runtime's error; the current device stays 0 and no free call
  is issued.
\<close>

theorem device_free_queue_rejected_device:
  "rocm_class rocm_build
   \<and> device (queue1\<lparr>device := 7\<rparr>) = 7
   \<and> current_device fresh = 0
   \<and> fst (device_free_queue two_gpus rocm_build 5 (queue1\<lparr>device := 7\<rparr>) fresh) =
       Inl (Error ''invalid device ordinal'' ''internal_set_device'')
   \<and> current_device
         (snd (device_free_queue two_gpus rocm_build 5 (queue1\<lparr>device := 7\<rparr>) fresh)) = 0
   \<and> calls (snd (device_free_queue two_gpus rocm_build 5 (queue1\<lparr>device := 7\<rparr>) fresh)) =
       [SetDevice 7]"
  by (simp add: device_free_queue_def internal_set_device_def hipSetDevice_def
      cudaSetDevice_def blas_dev_call_def rocm_class_def rocm_build_def two_gpus_def
      queue1_def fresh_def log_call_def)

text \<open>
  C3, as amended. \<open>device_free\<close> with a queue, on a CUDA-class or ROCm-class build,
  first issues the set-device call for the queue's device. When the runtime accepts it,
  that device becomes the current device and the free call for the pointer follows, whose
  outcome is the outcome of \<open>device_free\<close>; when the runtime rejects it, the runtime's
  error is thrown, the current device is unchanged and no free call is issued. On a
  SYCL-class build the only runtime call is \<open>sycl::free\<close> with the queue's stream, and the
  current device is untouched. With no backend the function returns without an error and
  does nothing.
\<close>

theorem device_free_queue_steps:
  "(cuda_class b \<or> rocm_class b \<longrightarrow>
      (SetDevice_status V (device q) s = Success \<longrightarrow>
         calls (snd (device_free_queue V b p q s)) = calls s @ [SetDevice (device q), Free p]
       \<and> current_device (snd (device_free_queue V b p q s)) = device q
       \<and> fst (device_free_queue V b p q s) =
           blas_dev_call V ''device_free''
             (Free_status V p ((log_call (SetDevice (device q)) s)\<lparr>current_device := device q\<rparr>)))
    \<and> (SetDevice_status V (device q) s \<noteq> Success \<longrightarrow>
         device_free_queue V b p q s =
           (Inl (Error (device_error_string V (SetDevice_status V (device q) s))
                  ''internal_set_device''),
            log_call (SetDevice (device q)) s)))
   \<and> (sycl_class b \<longrightarrow>
        calls (snd (device_free_queue V b p q s)) = calls s @ [SyclFree p (stream q)]
      \<and> current_device (snd (device_free_queue V b p q s)) = current_device s
      \<and> fst (device_free_queue V b p q s) =
          blas_dev_call_sycl ''device_free'' (sycl_free_exception V p (stream q) s))
   \<and> (no_backend b \<longrightarrow> device_free_queue V b p q s = (Inr (), s))"
proof -
  have sycl: "sycl_class b \<Longrightarrow> device_free_queue V b p q s =
      (blas_dev_call_sycl ''device_free'' (sycl_free_exception V p (stream q) s),
       log_call (SyclFree p (stream q)) s)"
    by (simp add: sycl_class_def device_free_queue_def sycl_free_def)
  have none: "no_backend b \<Longrightarrow> device_free_queue V b p q s = (Inr (), s)"
    by (simp add: no_backend_def device_free_queue_def)
  show ?thesis
    using none
    by (simp add: sycl device_free_queue_cuda_rocm internal_set_device_cuda_rocm
        log_call_simps)
qed

theorem device_free_queue_steps_witness:
  "cuda_class cuda_build \<and> SetDevice_status two_gpus (device queue1) fresh = Success
   \<and> device_free_queue two_gpus cuda_build 5 queue1 fresh =
       (Inr (), \<lparr>current_device = 1, calls = [SetDevice 1, Free 5]\<rparr>)
   \<and> rocm_class rocm_build
   \<and> SetDevice_status two_gpus (device (queue1\<lparr>device := 7\<rparr>)) fresh \<noteq> Success
   \<and> device_free_queue two_gpus rocm_build 5 (queue1\<lparr>device := 7\<rparr>) fresh =
       (Inl (Error ''invalid device ordinal'' ''internal_set_device''),
        \<lparr>current_device = 0, calls = [SetDevice 7]\<rparr>)
   \<and> sycl_class sycl_build
   \<and> device_free_queue two_gpus sycl_build 5 queue1 fresh =
       (Inr (), \<lparr>current_device = 0, calls = [SyclFree 5 7]\<rparr>)
   \<and> no_backend null_build
   \<and> device_free_queue two_gpus null_build 5 queue1 fresh = (Inr (), fresh)"
proof -
  have v: "SetDevice_status two_gpus 1 s = Success"
    "SetDevice_status two_gpus 7 s = ErrorOther 101"
    "Free_status two_gpus 5 s = Success"
    "device_error_string two_gpus (ErrorOther 101) = ''invalid device ordinal''"
    "sycl_free_exception two_gpus 5 7 s = None" for s
    by (simp_all add: two_gpus_def)
  from device_free_queue_steps [of cuda_build two_gpus queue1 fresh 5]
    device_free_queue_steps [of rocm_build two_gpus "queue1\<lparr>device := 7\<rparr>" fresh 5]
    device_free_queue_steps [of sycl_build two_gpus queue1 fresh 5]
    device_free_queue_steps [of null_build two_gpus queue1 fresh 5]
    v
  show ?thesis
    by (simp add: class_defs build_defs prod_eq_iff fresh_def log_call_def queue1_def
        blas_dev_call_def blas_dev_call_sycl_def)
qed

text \<open>
  C10. On a CUDA-class or ROCm-class build, when \<open>device_free\<close> with a queue returns,
  the current device is the queue's device, and the runtime calls it issued are the
  set-device call and the free call only: the device that was current before is neither
  read nor set again.
\<close>

theorem device_free_queue_leaves_device:
  assumes "cuda_class b \<or> rocm_class b"
    and "fst (device_free_queue V b p q s) = Inr ()"
  shows "current_device (snd (device_free_queue V b p q s)) = device q
       \<and> calls (snd (device_free_queue V b p q s)) = calls s @ [SetDevice (device q), Free p]"
proof (cases "SetDevice_status V (device q) s = Success")
  case True
  with assms(1) show ?thesis
    by (simp add: device_free_queue_cuda_rocm internal_set_device_cuda_rocm log_call_simps)
next
  case False
  with assms show ?thesis
    by (simp add: device_free_queue_cuda_rocm internal_set_device_cuda_rocm)
qed

theorem device_free_queue_leaves_device_witness:
  "cuda_class cuda_build
   \<and> fst (device_free_queue two_gpus cuda_build 5 queue1 fresh) = Inr ()
   \<and> current_device fresh = 0
   \<and> current_device (snd (device_free_queue two_gpus cuda_build 5 queue1 fresh)) = 1
   \<and> calls (snd (device_free_queue two_gpus cuda_build 5 queue1 fresh)) = [SetDevice 1, Free 5]"
proof -
  have c: "cuda_class cuda_build"
    by (simp add: cuda_class_def cuda_build_def)
  have ok: "fst (device_free_queue two_gpus cuda_build 5 queue1 fresh) = Inr ()"
    by (simp add: device_free_queue_def internal_set_device_def cudaSetDevice_def cudaFree_def
        blas_dev_call_def cuda_build_def two_gpus_def queue1_def)
  from device_free_queue_leaves_device [of cuda_build two_gpus 5 queue1 fresh] c ok
  show ?thesis by (simp add: fresh_def queue1_def)
qed

end
